theory Spec2Isabelle
  imports Main
begin

section \<open>The node lifecycle controller (ZapController)\<close>

text \<open>
  A shallow embedding of the controller class: its fields become a record, every method a
  function from the controller to the updated controller, and every call into a
  collaborator whose outcome the controller cannot decide (a gRPC connect, the start of
  the lnd process, the moment the process exits) reads its outcome from a record of the
  outside world.
\<close>

subsection \<open>Connection types and TLS cipher suites\<close>

datatype connection_type = Local | Custom | Btcpayserver

text \<open>\<open>Array.prototype.join\<close> on an array of strings.\<close>

fun join :: "string list \<Rightarrow> string \<Rightarrow> string" where
  "join [] sep = []"
| "join [x] sep = x"
| "join (x # y # ys) sep = x @ sep @ join (y # ys) sep"

definition grpcSslCipherSuites :: "connection_type \<Rightarrow> string" where
  "grpcSslCipherSuites connectionType =
     join (if connectionType = Btcpayserver
           then [''ECDHE-RSA-AES256-GCM-SHA384'',
                 ''ECDHE-RSA-AES128-GCM-SHA256'']
           else [''ECDHE-ECDSA-AES128-GCM-SHA256'',
                 ''ECDHE-ECDSA-AES256-GCM-SHA384'',
                 ''ECDHE-ECDSA-AES128-CBC-SHA256'',
                 ''ECDHE-ECDSA-CHACHA20-POLY1305'']) '':''"

text \<open>
  JavaScript's \<open>a || b\<close> where \<open>a\<close> is a string or \<open>undefined\<close>: the empty string and
  \<open>undefined\<close> are the falsy values, every other string is kept.
\<close>

definition js_or :: "string option \<Rightarrow> string \<Rightarrow> string" where
  "js_or a b = (case a of None \<Rightarrow> b | Some s \<Rightarrow> if s = [] then b else s)"

subsection \<open>Errors\<close>

text \<open>
  The \<open>code\<close> of a thrown error is a string (\<open>LND_GRPC_HOST_ERROR\<close>), a gRPC status number
  (12 is UNIMPLEMENTED) or absent.
\<close>

datatype code = CodeStr string | CodeNum int | CodeUndefined

record js_error =
  code :: code
  message :: string
  details :: "string option"

datatype state = Init | Onboarding | Running | Connected | Terminated

datatype trigger = StartOnboarding | StartLnd | ConnectLnd | Terminate

text \<open>
  What a call of the controller can throw: an error of a collaborator passed on, the state
  machine's refusal of a trigger in the current state, or the profile constructor's
  validation error with the missing and the extra keys.
\<close>

datatype exn =
    Thrown js_error
  | InvalidTransition trigger state
  | ConfigValidationError "string list" "string list"

subsection \<open>Onboarding options and the connection profile\<close>

datatype val = VStr string | VBool bool

type_synonym obj = "(string \<times> val) list"

text \<open>
  The options of the renderer: the \<open>type\<close> and the other own properties of the object,
  in insertion order.
\<close>

record onboardingOptions =
  otype :: connection_type
  rest :: obj

fun type_name :: "connection_type \<Rightarrow> string" where
  "type_name Local = ''local''"
| "type_name Custom = ''custom''"
| "type_name Btcpayserver = ''btcpayserver''"

definition options_obj :: "onboardingOptions \<Rightarrow> obj" where
  "options_obj options = (''type'', VStr (type_name (otype options))) # rest options"

text \<open>
  lodash \<open>pick(object, paths)\<close>: a new object with the listed properties that the object
  has, in the order of the list; a property listed twice is set once and stays where it
  was set first.
\<close>

definition first_occurrences :: "string list \<Rightarrow> string list" where
  "first_occurrences paths = rev (remdups (rev paths))"

definition pick :: "obj \<Rightarrow> string list \<Rightarrow> obj" where
  "pick object paths =
     concat (map (\<lambda>k. case map_of object k of None \<Rightarrow> [] | Some v \<Rightarrow> [(k, v)])
                 (first_occurrences paths))"

record active_connection =
  type :: "connection_type option"
  currency :: string
  network :: string
  wallet :: string

record lnd_config = active_connection +
  settings :: obj

text \<open>
  Modelled from the spec: the class \<open>LndConfig\<close> (\<open>../lnd/config\<close>) is not among the
  sources. Section 4.1: the constructor validates the required-key invariant and fails
  with a \<open>ConfigValidationError\<close> naming the missing/extra keys; section 3: settings must
  contain exactly the required keys for the connection type. The table of required keys,
  \<open>LndConfig.SETTINGS_PROPS\<close>, is a parameter.
\<close>

definition LndConfig_new ::
  "(connection_type \<Rightarrow> string list) \<Rightarrow> connection_type \<Rightarrow> string \<Rightarrow> string \<Rightarrow> string \<Rightarrow> obj
     \<Rightarrow> exn + lnd_config" where
  "LndConfig_new props t cur net wal s =
     (let required = props t;
          missing = filter (\<lambda>k. k \<notin> set (map fst s)) required;
          extra = filter (\<lambda>k. k \<notin> set required) (map fst s)
      in if missing = [] \<and> extra = []
         then Inr \<lparr>type = Some t, currency = cur, network = net, wallet = wal, settings = s\<rparr>
         else Inl (ConfigValidationError missing extra))"

text \<open>
  Modelled from the spec: the table \<open>LndConfig.SETTINGS_PROPS\<close> is not among the sources.
  Section 3: local requires alias and the autopilot flag; custom requires host, cert path
  and macaroon path; the hosted service requires host. It is used for concrete runs only;
  the theorems hold for every table.
\<close>

fun SETTINGS_PROPS :: "connection_type \<Rightarrow> string list" where
  "SETTINGS_PROPS Local = [''alias'', ''autopilot'']"
| "SETTINGS_PROPS Custom = [''host'', ''cert'', ''macaroon'']"
| "SETTINGS_PROPS Btcpayserver = [''host'']"

subsection \<open>Collaborators\<close>

datatype signal = SIGINT | SIGTERM

text \<open>
  Modelled from the spec: the class \<open>Neutrino\<close> (\<open>../lnd/neutrino\<close>) is not among the
  sources. Section 3: the handle owns zero or one running child process; section 6:
  \<open>kill(signal?)\<close>. The controller reads \<open>process\<close> and calls \<open>start\<close> and \<open>kill\<close>; the
  signals sent are recorded in order.
\<close>

record neutrino_handle =
  process :: bool
  kills :: "signal list"

text \<open>
  Modelled from the spec: the classes \<open>Lightning\<close> and \<open>WalletUnlocker\<close> (\<open>../lnd/lightning\<close>,
  \<open>../lnd/walletUnlocker\<close>) are not among the sources. Section 3: a session has a
  capability flag \<open>canDisconnect\<close>/\<open>canTerminate\<close> reflecting the connection state;
  section 4.3: \<open>disconnect\<close> is idempotent, a no-op if not connected, and releases the
  transport; \<open>subscribe\<close> forwards push events until \<open>disconnect\<close>.
\<close>

record rpc_session =
  is_open :: bool
  subscribed :: bool

text \<open>
  Modelled from the spec: the constructors of the two session classes are not among the
  sources. Section 3: a session is created on a connect attempt, so a new one is not open.
\<close>

definition new_session :: rpc_session where
  "new_session = \<lparr>is_open = False, subscribed = False\<rparr>"

text \<open>
  Modelled from the spec: the method \<open>can\<close> of the session classes is not among the
  sources. Section 3: the capability to disconnect or terminate reflects the connection
  state.
\<close>

definition session_can :: "rpc_session \<Rightarrow> string \<Rightarrow> bool" where
  "session_can s action = ((action = ''disconnect'' \<or> action = ''terminate'') \<and> is_open s)"

text \<open>
  Modelled from the spec: the method \<open>disconnect\<close> of the session classes is not among the
  sources. Section 4.3: it releases the transport, ends the forwarding of push events and
  is a no-op on a session that is not connected.
\<close>

definition disconnect :: "rpc_session \<Rightarrow> rpc_session" where
  "disconnect s = s\<lparr>is_open := False, subscribed := False\<rparr>"

record errors =
  host :: "string option"
  cert :: "string option"
  macaroon :: "string option"

text \<open>
  The data of a notification. A number is a double: the integers up to \<open>2 ^ 53\<close> in
  absolute value are doubles themselves, and what \<open>Number\<close> makes of a larger one is a
  rounded value that is not followed further.
\<close>

datatype payload =
  Undefined | Str string | Num int | Rounded | Errors errors | Config lnd_config

definition Number :: "int \<Rightarrow> payload" where
  "Number height = (if \<bar>height\<bar> \<le> 2 ^ 53 then Num height else Rounded)"

datatype dialog = LndError string | UnexpectedQuit

text \<open>
  The outside world during one call: whether each connect and the start of the process
  succeed (\<open>None\<close>) or throw, after how many milliseconds an awaited disconnect settles
  (\<open>None\<close>: it rejects or never settles), and after how many milliseconds the process emits
  \<open>exit\<close> (\<open>None\<close>: never).
\<close>

record world =
  lightning_connect :: "js_error option"
  unlocker_connect :: "js_error option"
  neutrino_start :: "js_error option"
  disconnect_settles :: "nat option"
  exit_at :: "nat option"

subsection \<open>The controller\<close>

text \<open>
  The fields of the class, and beside them what its calls leave behind outside of it: the
  notifications sent to the renderer, the listeners on \<open>ipcMain\<close>, the profile saved, the
  active connection in the settings store, the environment variable, the dialogs shown
  and whether \<open>app.quit\<close> was called. \<open>mainWindow\<close> tells whether the window is still
  there. Calls of the log and the loading of the page change none of these and are left
  out, and so is the wait of 200 ms that ends \<open>onOnboarding\<close>, which only delays the end
  of the transition. The process reports block heights as integers.
\<close>

record controller =
  fsm :: state
  mainWindow :: bool
  lndConfig :: lnd_config
  neutrino :: "neutrino_handle option"
  lightning :: "rpc_session option"
  walletUnlocker :: "rpc_session option"
  sent :: "(string \<times> payload) list"
  ipc_listeners :: "string list"
  saved_config :: "lnd_config option"
  activeConnection :: "active_connection option"
  GRPC_SSL_CIPHER_SUITES :: "string option"
  dialogs :: "dialog list"
  quit :: bool

definition sendMessage :: "string \<Rightarrow> payload \<Rightarrow> controller \<Rightarrow> controller" where
  "sendMessage msg data c =
     (if mainWindow c then c\<lparr>sent := sent c @ [(msg, data)]\<rparr> else c)"

definition startWalletUnlocker :: "world \<Rightarrow> controller \<Rightarrow> (js_error + unit) \<times> controller" where
  "startWalletUnlocker w c =
     (let c1 = c\<lparr>walletUnlocker := Some new_session\<rparr>
      in case unlocker_connect w of
           None \<Rightarrow>
             (Inr (),
              sendMessage ''walletUnlockerGrpcActive'' Undefined
                (c1\<lparr>walletUnlocker := Some (new_session\<lparr>is_open := True\<rparr>),
                    ipc_listeners := ipc_listeners c1 @ [''walletUnlocker'']\<rparr>))
         | Some err \<Rightarrow> (Inl err, c1))"

definition startLightningWallet :: "world \<Rightarrow> controller \<Rightarrow> (js_error + unit) \<times> controller" where
  "startLightningWallet w c =
     (let c1 = c\<lparr>lightning := Some new_session\<rparr>
      in case lightning_connect w of
           None \<Rightarrow>
             (Inr (),
              sendMessage ''lightningGrpcActive'' Undefined
                (c1\<lparr>lightning := Some (new_session\<lparr>is_open := True, subscribed := True\<rparr>),
                    ipc_listeners := ipc_listeners c1 @ [''lnd'']\<rparr>))
         | Some err \<Rightarrow> (Inl err, c1))"

text \<open>
  \<open>startNeutrino\<close> creates the handle, registers the event handlers (\<open>on_neutrino\<close> below)
  and starts the process: the handle has a process when \<open>start\<close> succeeded and none when
  it failed.
\<close>

definition startNeutrino :: "world \<Rightarrow> controller \<Rightarrow> (js_error + unit) \<times> controller" where
  "startNeutrino w c =
     (case neutrino_start w of
        None \<Rightarrow> (Inr (), c\<lparr>neutrino := Some \<lparr>process = True, kills = []\<rparr>\<rparr>)
      | Some err \<Rightarrow> (Inl err, c\<lparr>neutrino := Some \<lparr>process = False, kills = []\<rparr>\<rparr>))"

subsection \<open>Graceful shutdown\<close>

text \<open>
  The promise of \<open>shutdownNeutrino\<close> with its timer and its \<open>exit\<close> listener. The three
  callbacks run in the order of their times: the timer after 10 seconds, the call of
  \<open>kill()\<close> when the awaited disconnect has settled (at once when there is nothing to
  disconnect), the \<open>exit\<close> listener when the process exits. The promise has no reject
  path: an error inside the asynchronous executor is lost with the executor's own promise.
\<close>

datatype timer = Unset | Armed | Cleared | Fired

datatype shutdown_event = Timeout | KillCalled | ProcessExit

record shutdown =
  shutdownTimeout :: timer
  exitHandler :: bool
  resolved :: "nat option"
  signals :: "signal list"

definition resolve :: "nat \<Rightarrow> shutdown \<Rightarrow> shutdown" where
  "resolve t p = (case resolved p of None \<Rightarrow> p\<lparr>resolved := Some t\<rparr> | Some r \<Rightarrow> p)"

fun shutdown_step :: "nat \<times> shutdown_event \<Rightarrow> shutdown \<Rightarrow> shutdown" where
  "shutdown_step (t, Timeout) p =
     (if shutdownTimeout p = Armed
      then resolve t (p\<lparr>shutdownTimeout := Fired, exitHandler := False,
                         signals := signals p @ [SIGTERM]\<rparr>)
      else p)"
| "shutdown_step (t, ProcessExit) p =
     (if exitHandler p
      then resolve t (p\<lparr>exitHandler := False,
                         shutdownTimeout := (if shutdownTimeout p = Armed then Cleared
                                             else shutdownTimeout p)\<rparr>)
      else p)"
| "shutdown_step (t, KillCalled) p = p\<lparr>signals := signals p @ [SIGINT]\<rparr>"

definition shutdownNeutrino :: "world \<Rightarrow> controller \<Rightarrow> shutdown \<times> controller" where
  "shutdownNeutrino w c =
     (if type (lndConfig c) \<noteq> Some Local \<or> neutrino c = None \<or> \<not> process (the (neutrino c))
      then (\<lparr>shutdownTimeout = Unset, exitHandler = False, resolved = Some 0, signals = []\<rparr>, c)
      else
        let n = the (neutrino c);
            draining = (case lightning c of None \<Rightarrow> False | Some l \<Rightarrow> session_can l ''terminate'');
            kill_at = (if draining then disconnect_settles w else Some 0);
            events = sort_key fst
              ([(10000, Timeout)]
               @ (case kill_at of None \<Rightarrow> [] | Some d \<Rightarrow> [(d, KillCalled)])
               @ (case exit_at w of None \<Rightarrow> [] | Some t \<Rightarrow> [(t, ProcessExit)]));
            p = foldl (\<lambda>p e. shutdown_step e p)
                  \<lparr>shutdownTimeout = Armed, exitHandler = True, resolved = None, signals = []\<rparr>
                  events
        in (p, c\<lparr>neutrino := Some (n\<lparr>kills := kills n @ signals p\<rparr>),
                 lightning := (if draining \<and> disconnect_settles w \<noteq> None
                               then map_option disconnect (lightning c)
                               else lightning c)\<rparr>))"

subsection \<open>The state machine and its callbacks\<close>

text \<open>
  The transition table handed to \<open>StateMachine.factory\<close>; \<open>None\<close> as source is the
  wildcard \<open>*\<close>.
\<close>

definition transitions :: "(trigger \<times> state option \<times> state) list" where
  "transitions =
     [(StartOnboarding, None, Onboarding),
      (StartLnd, Some Onboarding, Running),
      (ConnectLnd, Some Onboarding, Connected),
      (Terminate, None, Terminated)]"

text \<open>
  The target of a trigger in a state: the entry for that state if there is one, the
  wildcard entry otherwise.
\<close>

definition seek :: "state \<Rightarrow> trigger \<Rightarrow> state option" where
  "seek s t =
     (case find (\<lambda>(name, src, dst). name = t \<and> src = Some s) transitions of
        Some (name, src, dst) \<Rightarrow> Some dst
      | None \<Rightarrow>
          (case find (\<lambda>(name, src, dst). name = t \<and> src = None) transitions of
             Some (name, src, dst) \<Rightarrow> Some dst
           | None \<Rightarrow> None))"

definition can :: "controller \<Rightarrow> trigger \<Rightarrow> bool" where
  "can c t = (seek (fsm c) t \<noteq> None)"

definition removeIpcListeners :: "controller \<Rightarrow> controller" where
  "removeIpcListeners c =
     c\<lparr>ipc_listeners :=
         filter (\<lambda>ch. ch \<notin> set [''startLnd'', ''startLightningWallet'', ''walletUnlocker'', ''lnd''])
                (ipc_listeners c)\<rparr>"

definition registerIpcListeners :: "controller \<Rightarrow> controller" where
  "registerIpcListeners c =
     c\<lparr>ipc_listeners := ipc_listeners c @ [''startLnd'', ''startLightningWallet'']\<rparr>"

definition onOnboarding :: "world \<Rightarrow> state \<Rightarrow> controller \<Rightarrow> controller" where
  "onOnboarding w lifecycle_from c =
     (let c1 = registerIpcListeners (removeIpcListeners c)
      in if lifecycle_from = Connected
            \<and> (case lightning c1 of None \<Rightarrow> False | Some l \<Rightarrow> session_can l ''disconnect'')
         then c1\<lparr>lightning := map_option disconnect (lightning c1)\<rparr>
         else if lifecycle_from = Running then snd (shutdownNeutrino w c1)
         else c1)"

definition onStartOnboarding :: "controller \<Rightarrow> controller" where
  "onStartOnboarding c = sendMessage ''startOnboarding'' (Config (lndConfig c)) c"

definition onBeforeStartLnd :: "world \<Rightarrow> controller \<Rightarrow> (js_error + unit) \<times> controller" where
  "onBeforeStartLnd w c = startNeutrino w c"

definition onBeforeConnectLnd :: "world \<Rightarrow> controller \<Rightarrow> (js_error + unit) \<times> controller" where
  "onBeforeConnectLnd w c =
     (case startLightningWallet w c of
        (Inr u, c1) \<Rightarrow> (Inr (), sendMessage ''walletConnected'' Undefined c1)
      | (Inl e, c1) \<Rightarrow>
          let errors0 = \<lparr>host = None, cert = None, macaroon = None\<rparr>;
              errors1 = (if code e = CodeStr ''LND_GRPC_HOST_ERROR''
                         then errors0\<lparr>host := Some (message e)\<rparr> else errors0);
              errors2 = (if code e = CodeStr ''LND_GRPC_CERT_ERROR''
                         then errors1\<lparr>cert := Some (message e)\<rparr>
                         else if code e = CodeStr ''LND_GRPC_MACAROON_ERROR''
                         then errors1\<lparr>macaroon := Some (message e)\<rparr>
                         else errors1)
          in if code e = CodeNum 12 then startWalletUnlocker w c1
             else
               let errors3 = errors2\<lparr>host := Some (''Unable to connect to host: ''
                                                      @ js_or (details e) (message e))\<rparr>
               in (Inl e, sendMessage ''startLndError'' (Errors errors3) c1))"

definition onTerminated :: "world \<Rightarrow> state \<Rightarrow> controller \<Rightarrow> controller" where
  "onTerminated w lifecycle_from c =
     (if lifecycle_from = Connected
         \<and> (case lightning c of None \<Rightarrow> False | Some l \<Rightarrow> session_can l ''disconnect'')
      then c\<lparr>lightning := map_option disconnect (lightning c)\<rparr>
      else if lifecycle_from = Running then snd (shutdownNeutrino w c)
      else c)"

definition onTerminate :: "controller \<Rightarrow> controller" where
  "onTerminate c = c\<lparr>quit := True\<rparr>"

text \<open>
  The lifecycle of one trigger, as the state machine package (javascript-state-machine,
  version 3) runs it: a trigger with no target in the current state throws and nothing
  else happens; otherwise \<open>onBefore<Trigger>\<close> runs first, and a promise it returns delays
  the transition until it resolves and cancels it when it rejects (the state stays where
  it was and the rejection is passed to the caller); then the state changes, \<open>on<State>\<close>
  runs if the state is a new one, and \<open>on<Trigger>\<close> runs last.
\<close>

fun onBefore :: "world \<Rightarrow> trigger \<Rightarrow> controller \<Rightarrow> (js_error + unit) \<times> controller" where
  "onBefore w StartLnd c = onBeforeStartLnd w c"
| "onBefore w ConnectLnd c = onBeforeConnectLnd w c"
| "onBefore w t c = (Inr (), c)"

fun onEnter :: "world \<Rightarrow> state \<Rightarrow> state \<Rightarrow> controller \<Rightarrow> controller" where
  "onEnter w lifecycle_from Onboarding c = onOnboarding w lifecycle_from c"
| "onEnter w lifecycle_from Terminated c = onTerminated w lifecycle_from c"
| "onEnter w lifecycle_from s c = c"

fun onAfter :: "trigger \<Rightarrow> controller \<Rightarrow> controller" where
  "onAfter StartOnboarding c = onStartOnboarding c"
| "onAfter Terminate c = onTerminate c"
| "onAfter t c = c"

definition fire :: "world \<Rightarrow> trigger \<Rightarrow> controller \<Rightarrow> (exn + unit) \<times> controller" where
  "fire w t c =
     (case seek (fsm c) t of
        None \<Rightarrow> (Inl (InvalidTransition t (fsm c)), c)
      | Some dst \<Rightarrow>
          (case onBefore w t c of
             (Inl e, c1) \<Rightarrow> (Inl (Thrown e), c1)
           | (Inr u, c1) \<Rightarrow>
               let c2 = (if fsm c \<noteq> dst then onEnter w (fsm c) dst (c1\<lparr>fsm := dst\<rparr>) else c1)
               in (Inr (), onAfter t c2)))"

subsection \<open>Finishing onboarding\<close>

definition finishOnboarding ::
  "(connection_type \<Rightarrow> string list) \<Rightarrow> world \<Rightarrow> onboardingOptions \<Rightarrow> controller
     \<Rightarrow> (exn + unit) \<times> controller" where
  "finishOnboarding props w options c =
     (case LndConfig_new props (otype options) ''bitcoin'' ''testnet'' ''wallet-1''
             (pick (options_obj options) (props (otype options))) of
        Inl e \<Rightarrow> (Inl e, c)
      | Inr cfg \<Rightarrow>
          let c1 = c\<lparr>lndConfig := cfg, saved_config := Some cfg\<rparr>;
              c2 = c1\<lparr>activeConnection :=
                        Some \<lparr>type = type (lndConfig c1), currency = currency (lndConfig c1),
                              network = network (lndConfig c1), wallet = wallet (lndConfig c1)\<rparr>\<rparr>;
              c3 = c2\<lparr>GRPC_SSL_CIPHER_SUITES :=
                        Some (js_or (GRPC_SSL_CIPHER_SUITES c2)
                                    (grpcSslCipherSuites (otype options)))\<rparr>
          in if otype options = Local then fire w StartLnd c3 else fire w ConnectLnd c3)"

subsection \<open>Events of the process, messages of the renderer, runs\<close>

datatype neutrino_event =
    ProcessError string
  | Exit
  | WalletUnlockerGrpcActive
  | ChainSyncWaiting
  | ChainSyncStarted
  | ChainSyncFinished
  | GotCurrentBlockHeight int
  | GotLndBlockHeight int
  | GotLndCfilterHeight int

text \<open>The handlers that \<open>startNeutrino\<close> registers on the handle, by event.\<close>

fun on_neutrino :: "world \<Rightarrow> neutrino_event \<Rightarrow> controller \<Rightarrow> controller" where
  "on_neutrino w (ProcessError error) c = c\<lparr>dialogs := dialogs c @ [LndError error]\<rparr>"
| "on_neutrino w Exit c =
     (if fsm c = Running \<or> fsm c = Connected
      then snd (fire w Terminate (c\<lparr>dialogs := dialogs c @ [UnexpectedQuit]\<rparr>))
      else c)"
| "on_neutrino w WalletUnlockerGrpcActive c = snd (startWalletUnlocker w c)"
| "on_neutrino w ChainSyncWaiting c = sendMessage ''lndSyncStatus'' (Str ''waiting'') c"
| "on_neutrino w ChainSyncStarted c = sendMessage ''lndSyncStatus'' (Str ''in-progress'') c"
| "on_neutrino w ChainSyncFinished c = sendMessage ''lndSyncStatus'' (Str ''complete'') c"
| "on_neutrino w (GotCurrentBlockHeight height) c =
     sendMessage ''currentBlockHeight'' (Number height) c"
| "on_neutrino w (GotLndBlockHeight height) c =
     sendMessage ''lndBlockHeight'' (Number height) c"
| "on_neutrino w (GotLndCfilterHeight height) c =
     sendMessage ''lndCfilterHeight'' (Number height) c"

datatype ipc = StartLndMsg onboardingOptions | StartLightningWalletMsg | WalletUnlockerMsg | LndMsg

fun channel :: "ipc \<Rightarrow> string" where
  "channel (StartLndMsg options) = ''startLnd''"
| "channel StartLightningWalletMsg = ''startLightningWallet''"
| "channel WalletUnlockerMsg = ''walletUnlocker''"
| "channel LndMsg = ''lnd''"

text \<open>
  The listeners on \<open>ipcMain\<close>: the two of \<open>_registerIpcListeners\<close>, and the two relays to
  the sessions' \<open>registerMethods\<close>, which pass the call on and leave the controller as it is.
\<close>

fun ipc_listener ::
  "(connection_type \<Rightarrow> string list) \<Rightarrow> world \<Rightarrow> ipc \<Rightarrow> controller
     \<Rightarrow> (exn + unit) \<times> controller" where
  "ipc_listener props w (StartLndMsg options) c = finishOnboarding props w options c"
| "ipc_listener props w StartLightningWalletMsg c =
     (case startLightningWallet w c of
        (Inl e, c1) \<Rightarrow> (Inl (Thrown e), c1)
      | (Inr u, c1) \<Rightarrow> (Inr (), c1))"
| "ipc_listener props w WalletUnlockerMsg c = (Inr (), c)"
| "ipc_listener props w LndMsg c = (Inr (), c)"

text \<open>
  An error of a collaborator reaches the caller as a rejected promise; the refusal of the
  state machine and the error of the constructor are thrown in the call itself.
\<close>

fun thrown_in_call :: "exn + unit \<Rightarrow> bool" where
  "thrown_in_call (Inl (InvalidTransition t s)) = True"
| "thrown_in_call (Inl (ConfigValidationError missing extra)) = True"
| "thrown_in_call r = False"

text \<open>
  \<open>emit\<close> calls the listeners of the channel in turn; a listener that throws ends it.
\<close>

fun call_listeners ::
  "(connection_type \<Rightarrow> string list) \<Rightarrow> world \<Rightarrow> ipc \<Rightarrow> string list \<Rightarrow> controller
     \<Rightarrow> controller" where
  "call_listeners props w m [] c = c"
| "call_listeners props w m (ch # chs) c =
     (case ipc_listener props w m c of
        (r, c1) \<Rightarrow> if thrown_in_call r then c1 else call_listeners props w m chs c1)"

definition ipc_emit ::
  "(connection_type \<Rightarrow> string list) \<Rightarrow> world \<Rightarrow> ipc \<Rightarrow> controller \<Rightarrow> controller" where
  "ipc_emit props w m c =
     call_listeners props w m (filter (\<lambda>ch. ch = channel m) (ipc_listeners c)) c"

datatype input = Trigger trigger | IpcMessage ipc | NeutrinoEvent neutrino_event | WindowClosed

fun step ::
  "(connection_type \<Rightarrow> string list) \<Rightarrow> world \<times> input \<Rightarrow> controller \<Rightarrow> controller" where
  "step props (w, Trigger t) c = snd (fire w t c)"
| "step props (w, IpcMessage m) c = ipc_emit props w m c"
| "step props (w, NeutrinoEvent ev) c = (if neutrino c = None then c else on_neutrino w ev c)"
| "step props (w, WindowClosed) c = c\<lparr>mainWindow := False\<rparr>"

definition run ::
  "(connection_type \<Rightarrow> string list) \<Rightarrow> (world \<times> input) list \<Rightarrow> controller \<Rightarrow> controller" where
  "run props inputs c = foldl (\<lambda>c' i. step props i c') c inputs"

text \<open>
  The controller after its constructor, with the profile that \<open>load\<close> found and the
  environment variable of the process.
\<close>

definition new_controller :: "lnd_config \<Rightarrow> string option \<Rightarrow> controller" where
  "new_controller loaded env =
     \<lparr>fsm = Init, mainWindow = True, lndConfig = loaded, neutrino = None, lightning = None,
      walletUnlocker = None, sent = [], ipc_listeners = [], saved_config = None,
      activeConnection = None, GRPC_SSL_CIPHER_SUITES = env, dialogs = [], quit = False\<rparr>"

subsection \<open>Concrete worlds, options and controllers\<close>

text \<open>
  A world in which every call succeeds, the profiles of the two end-to-end scenarios, and
  the controllers reached from the constructor by the triggers and messages named.
\<close>

definition ok_world :: world where
  "ok_world = \<lparr>lightning_connect = None, unlocker_connect = None, neutrino_start = None,
               disconnect_settles = Some 0, exit_at = None\<rparr>"

definition host_error :: js_error where
  "host_error = \<lparr>code = CodeStr ''LND_GRPC_HOST_ERROR'', message = ''x'', details = None\<rparr>"

definition unimplemented_error :: js_error where
  "unimplemented_error = \<lparr>code = CodeNum 12, message = ''UNIMPLEMENTED'', details = None\<rparr>"

definition unavailable_error :: js_error where
  "unavailable_error = \<lparr>code = CodeNum 14, message = ''UNAVAILABLE'', details = None\<rparr>"

definition no_config :: lnd_config where
  "no_config = \<lparr>type = None, currency = [], network = [], wallet = [], settings = []\<rparr>"

definition local_options :: onboardingOptions where
  "local_options =
     \<lparr>otype = Local, rest = [(''alias'', VStr ''node1''), (''autopilot'', VBool True)]\<rparr>"

definition extra_key_options :: onboardingOptions where
  "extra_key_options =
     \<lparr>otype = Local,
      rest = [(''alias'', VStr ''node1''), (''autopilot'', VBool True), (''host'', VStr ''h'')]\<rparr>"

definition custom_options :: onboardingOptions where
  "custom_options =
     \<lparr>otype = Custom,
      rest = [(''host'', VStr ''h''), (''cert'', VStr ''c''), (''macaroon'', VStr ''m'')]\<rparr>"

definition missing_key_options :: onboardingOptions where
  "missing_key_options = \<lparr>otype = Local, rest = [(''alias'', VStr ''node1'')]\<rparr>"

definition onboarding_controller :: controller where
  "onboarding_controller =
     run SETTINGS_PROPS [(ok_world, Trigger StartOnboarding)] (new_controller no_config None)"

definition running_controller :: controller where
  "running_controller =
     run SETTINGS_PROPS [(ok_world, IpcMessage (StartLndMsg local_options))] onboarding_controller"

definition connected_controller :: controller where
  "connected_controller =
     run SETTINGS_PROPS [(ok_world, IpcMessage (StartLndMsg custom_options))] onboarding_controller"

text \<open>
  A local node is running; the renderer sends \<open>startLnd\<close> with the custom profile, which
  the state machine refuses in \<open>running\<close>; then onboarding is started again.
\<close>

definition swapped_controller :: controller where
  "swapped_controller =
     run SETTINGS_PROPS
       [(ok_world, IpcMessage (StartLndMsg custom_options)), (ok_world, Trigger StartOnboarding)]
       running_controller"

section \<open>Properties\<close>

subsection \<open>What each operation leaves unchanged\<close>

lemma sendMessage_frame [simp]:
  "fsm (sendMessage m d c) = fsm c"
  "mainWindow (sendMessage m d c) = mainWindow c"
  "lndConfig (sendMessage m d c) = lndConfig c"
  "neutrino (sendMessage m d c) = neutrino c"
  "lightning (sendMessage m d c) = lightning c"
  "walletUnlocker (sendMessage m d c) = walletUnlocker c"
  "ipc_listeners (sendMessage m d c) = ipc_listeners c"
  "saved_config (sendMessage m d c) = saved_config c"
  "activeConnection (sendMessage m d c) = activeConnection c"
  "GRPC_SSL_CIPHER_SUITES (sendMessage m d c) = GRPC_SSL_CIPHER_SUITES c"
  by (simp_all add: sendMessage_def)

lemma shutdownNeutrino_frame [simp]:
  "fsm (snd (shutdownNeutrino w c)) = fsm c"
  "mainWindow (snd (shutdownNeutrino w c)) = mainWindow c"
  "lndConfig (snd (shutdownNeutrino w c)) = lndConfig c"
  "sent (snd (shutdownNeutrino w c)) = sent c"
  "walletUnlocker (snd (shutdownNeutrino w c)) = walletUnlocker c"
  "ipc_listeners (snd (shutdownNeutrino w c)) = ipc_listeners c"
  "saved_config (snd (shutdownNeutrino w c)) = saved_config c"
  "activeConnection (snd (shutdownNeutrino w c)) = activeConnection c"
  "GRPC_SSL_CIPHER_SUITES (snd (shutdownNeutrino w c)) = GRPC_SSL_CIPHER_SUITES c"
  by (simp_all add: shutdownNeutrino_def Let_def)

lemma startWalletUnlocker_frame [simp]:
  "fsm (snd (startWalletUnlocker w c)) = fsm c"
  "mainWindow (snd (startWalletUnlocker w c)) = mainWindow c"
  "lndConfig (snd (startWalletUnlocker w c)) = lndConfig c"
  "neutrino (snd (startWalletUnlocker w c)) = neutrino c"
  "lightning (snd (startWalletUnlocker w c)) = lightning c"
  "saved_config (snd (startWalletUnlocker w c)) = saved_config c"
  "activeConnection (snd (startWalletUnlocker w c)) = activeConnection c"
  "GRPC_SSL_CIPHER_SUITES (snd (startWalletUnlocker w c)) = GRPC_SSL_CIPHER_SUITES c"
  by (simp_all add: startWalletUnlocker_def Let_def split: option.splits)

lemma startLightningWallet_frame [simp]:
  "fsm (snd (startLightningWallet w c)) = fsm c"
  "mainWindow (snd (startLightningWallet w c)) = mainWindow c"
  "lndConfig (snd (startLightningWallet w c)) = lndConfig c"
  "neutrino (snd (startLightningWallet w c)) = neutrino c"
  "walletUnlocker (snd (startLightningWallet w c)) = walletUnlocker c"
  "saved_config (snd (startLightningWallet w c)) = saved_config c"
  "activeConnection (snd (startLightningWallet w c)) = activeConnection c"
  "GRPC_SSL_CIPHER_SUITES (snd (startLightningWallet w c)) = GRPC_SSL_CIPHER_SUITES c"
  by (simp_all add: startLightningWallet_def Let_def split: option.splits)

lemma startNeutrino_frame [simp]:
  "fsm (snd (startNeutrino w c)) = fsm c"
  "mainWindow (snd (startNeutrino w c)) = mainWindow c"
  "lndConfig (snd (startNeutrino w c)) = lndConfig c"
  "sent (snd (startNeutrino w c)) = sent c"
  "lightning (snd (startNeutrino w c)) = lightning c"
  "walletUnlocker (snd (startNeutrino w c)) = walletUnlocker c"
  "saved_config (snd (startNeutrino w c)) = saved_config c"
  "activeConnection (snd (startNeutrino w c)) = activeConnection c"
  "GRPC_SSL_CIPHER_SUITES (snd (startNeutrino w c)) = GRPC_SSL_CIPHER_SUITES c"
  by (simp_all add: startNeutrino_def split: option.splits)

lemma onBeforeConnectLnd_frame [simp]:
  "fsm (snd (onBeforeConnectLnd w c)) = fsm c"
  "mainWindow (snd (onBeforeConnectLnd w c)) = mainWindow c"
  "lndConfig (snd (onBeforeConnectLnd w c)) = lndConfig c"
  "neutrino (snd (onBeforeConnectLnd w c)) = neutrino c"
  "saved_config (snd (onBeforeConnectLnd w c)) = saved_config c"
  "activeConnection (snd (onBeforeConnectLnd w c)) = activeConnection c"
  "GRPC_SSL_CIPHER_SUITES (snd (onBeforeConnectLnd w c)) = GRPC_SSL_CIPHER_SUITES c"
  by (simp_all add: onBeforeConnectLnd_def Let_def split: prod.splits sum.splits)
     (metis snd_conv startLightningWallet_frame)+

lemma onEnter_frame [simp]:
  "lndConfig (onEnter w s d c) = lndConfig c"
  "saved_config (onEnter w s d c) = saved_config c"
  "activeConnection (onEnter w s d c) = activeConnection c"
  "GRPC_SSL_CIPHER_SUITES (onEnter w s d c) = GRPC_SSL_CIPHER_SUITES c"
  "walletUnlocker (onEnter w s d c) = walletUnlocker c"
  "mainWindow (onEnter w s d c) = mainWindow c"
  "sent (onEnter w s d c) = sent c"
  "fsm (onEnter w s d c) = fsm c"
  by (cases d; simp add: onOnboarding_def onTerminated_def removeIpcListeners_def
        registerIpcListeners_def Let_def)+

lemma onAfter_frame [simp]:
  "lndConfig (onAfter t c) = lndConfig c"
  "saved_config (onAfter t c) = saved_config c"
  "activeConnection (onAfter t c) = activeConnection c"
  "GRPC_SSL_CIPHER_SUITES (onAfter t c) = GRPC_SSL_CIPHER_SUITES c"
  "walletUnlocker (onAfter t c) = walletUnlocker c"
  "lightning (onAfter t c) = lightning c"
  "neutrino (onAfter t c) = neutrino c"
  "mainWindow (onAfter t c) = mainWindow c"
  "fsm (onAfter t c) = fsm c"
  by (cases t; simp add: onStartOnboarding_def onTerminate_def)+

lemma onBefore_frame [simp]:
  "lndConfig (snd (onBefore w t c)) = lndConfig c"
  "saved_config (snd (onBefore w t c)) = saved_config c"
  "activeConnection (snd (onBefore w t c)) = activeConnection c"
  "GRPC_SSL_CIPHER_SUITES (snd (onBefore w t c)) = GRPC_SSL_CIPHER_SUITES c"
  "mainWindow (snd (onBefore w t c)) = mainWindow c"
  "fsm (snd (onBefore w t c)) = fsm c"
  by (cases t; simp add: onBeforeStartLnd_def)+

lemma fire_cases:
  obtains (invalid) "seek (fsm c) t = None" "fire w t c = (Inl (InvalidTransition t (fsm c)), c)"
  | (rejected) dst e where "seek (fsm c) t = Some dst" "fst (onBefore w t c) = Inl e"
      "fire w t c = (Inl (Thrown e), snd (onBefore w t c))"
  | (completed) dst where "seek (fsm c) t = Some dst" "fst (onBefore w t c) = Inr ()"
      "fire w t c = (Inr (), onAfter t (if fsm c \<noteq> dst
          then onEnter w (fsm c) dst ((snd (onBefore w t c))\<lparr>fsm := dst\<rparr>)
          else snd (onBefore w t c)))"
proof (cases "seek (fsm c) t")
  case None
  then show ?thesis using invalid by (simp add: fire_def)
next
  case (Some dst)
  obtain r c1 where b: "onBefore w t c = (r, c1)" by (cases "onBefore w t c")
  show ?thesis
  proof (cases r)
    case (Inl e)
    then show ?thesis using rejected [of dst e] Some b by (simp add: fire_def)
  next
    case (Inr u)
    then show ?thesis using completed [of dst] Some b by (simp add: fire_def Let_def)
  qed
qed

lemma fire_frame [simp]:
  "lndConfig (snd (fire w t c)) = lndConfig c"
  "saved_config (snd (fire w t c)) = saved_config c"
  "activeConnection (snd (fire w t c)) = activeConnection c"
  "GRPC_SSL_CIPHER_SUITES (snd (fire w t c)) = GRPC_SSL_CIPHER_SUITES c"
  "mainWindow (snd (fire w t c)) = mainWindow c"
  by (cases rule: fire_cases [of c t w]; simp)+

subsection \<open>The concrete controllers, evaluated\<close>

lemmas run_simps = run_def ipc_emit_def fire_def seek_def transitions_def
  onStartOnboarding_def onOnboarding_def onTerminated_def onTerminate_def onBeforeStartLnd_def
  onBeforeConnectLnd_def startNeutrino_def startLightningWallet_def startWalletUnlocker_def
  sendMessage_def removeIpcListeners_def registerIpcListeners_def new_session_def
  finishOnboarding_def LndConfig_new_def pick_def first_occurrences_def options_obj_def
  grpcSslCipherSuites_def
  js_or_def session_can_def disconnect_def Let_def

lemma onboarding_controller_eq:
  "onboarding_controller =
     \<lparr>fsm = Onboarding, mainWindow = True, lndConfig = no_config, neutrino = None,
      lightning = None, walletUnlocker = None,
      sent = [(''startOnboarding'', Config no_config)],
      ipc_listeners = [''startLnd'', ''startLightningWallet''], saved_config = None,
      activeConnection = None, GRPC_SSL_CIPHER_SUITES = None, dialogs = [], quit = False\<rparr>"
  by (simp add: onboarding_controller_def new_controller_def ok_world_def run_simps)

lemma running_controller_eq:
  "running_controller =
     \<lparr>fsm = Running, mainWindow = True,
      lndConfig = \<lparr>type = Some Local, currency = ''bitcoin'', network = ''testnet'',
                   wallet = ''wallet-1'',
                   settings = [(''alias'', VStr ''node1''), (''autopilot'', VBool True)]\<rparr>,
      neutrino = Some \<lparr>process = True, kills = []\<rparr>,
      lightning = None, walletUnlocker = None,
      sent = [(''startOnboarding'', Config no_config)],
      ipc_listeners = [''startLnd'', ''startLightningWallet''],
      saved_config = Some \<lparr>type = Some Local, currency = ''bitcoin'', network = ''testnet'',
                   wallet = ''wallet-1'',
                   settings = [(''alias'', VStr ''node1''), (''autopilot'', VBool True)]\<rparr>,
      activeConnection = Some \<lparr>type = Some Local, currency = ''bitcoin'', network = ''testnet'',
                   wallet = ''wallet-1''\<rparr>,
      GRPC_SSL_CIPHER_SUITES = Some ''ECDHE-ECDSA-AES128-GCM-SHA256:ECDHE-ECDSA-AES256-GCM-SHA384:ECDHE-ECDSA-AES128-CBC-SHA256:ECDHE-ECDSA-CHACHA20-POLY1305'',
      dialogs = [], quit = False\<rparr>"
  by (simp add: running_controller_def onboarding_controller_eq local_options_def ok_world_def run_simps)

lemma connected_controller_eq:
  "connected_controller =
     \<lparr>fsm = Connected, mainWindow = True,
      lndConfig = \<lparr>type = Some Custom, currency = ''bitcoin'', network = ''testnet'',
                   wallet = ''wallet-1'',
                   settings = [(''host'', VStr ''h''), (''cert'', VStr ''c''),
                               (''macaroon'', VStr ''m'')]\<rparr>,
      neutrino = None,
      lightning = Some \<lparr>is_open = True, subscribed = True\<rparr>, walletUnlocker = None,
      sent = [(''startOnboarding'', Config no_config), (''lightningGrpcActive'', Undefined),
              (''walletConnected'', Undefined)],
      ipc_listeners = [''startLnd'', ''startLightningWallet'', ''lnd''],
      saved_config = Some \<lparr>type = Some Custom, currency = ''bitcoin'', network = ''testnet'',
                   wallet = ''wallet-1'',
                   settings = [(''host'', VStr ''h''), (''cert'', VStr ''c''),
                               (''macaroon'', VStr ''m'')]\<rparr>,
      activeConnection = Some \<lparr>type = Some Custom, currency = ''bitcoin'', network = ''testnet'',
                   wallet = ''wallet-1''\<rparr>,
      GRPC_SSL_CIPHER_SUITES = Some ''ECDHE-ECDSA-AES128-GCM-SHA256:ECDHE-ECDSA-AES256-GCM-SHA384:ECDHE-ECDSA-AES128-CBC-SHA256:ECDHE-ECDSA-CHACHA20-POLY1305'',
      dialogs = [], quit = False\<rparr>"
  by (simp add: connected_controller_def onboarding_controller_eq custom_options_def ok_world_def
        run_simps)

lemma swapped_controller_eq:
  "swapped_controller =
     \<lparr>fsm = Onboarding, mainWindow = True,
      lndConfig = \<lparr>type = Some Custom, currency = ''bitcoin'', network = ''testnet'',
                   wallet = ''wallet-1'',
                   settings = [(''host'', VStr ''h''), (''cert'', VStr ''c''),
                               (''macaroon'', VStr ''m'')]\<rparr>,
      neutrino = Some \<lparr>process = True, kills = []\<rparr>,
      lightning = None, walletUnlocker = None,
      sent = [(''startOnboarding'', Config no_config),
              (''startOnboarding'',
               Config \<lparr>type = Some Custom, currency = ''bitcoin'', network = ''testnet'',
                       wallet = ''wallet-1'',
                       settings = [(''host'', VStr ''h''), (''cert'', VStr ''c''),
                                   (''macaroon'', VStr ''m'')]\<rparr>)],
      ipc_listeners = [''startLnd'', ''startLightningWallet''],
      saved_config = Some \<lparr>type = Some Custom, currency = ''bitcoin'', network = ''testnet'',
                   wallet = ''wallet-1'',
                   settings = [(''host'', VStr ''h''), (''cert'', VStr ''c''),
                               (''macaroon'', VStr ''m'')]\<rparr>,
      activeConnection = Some \<lparr>type = Some Custom, currency = ''bitcoin'', network = ''testnet'',
                   wallet = ''wallet-1''\<rparr>,
      GRPC_SSL_CIPHER_SUITES = Some ''ECDHE-ECDSA-AES128-GCM-SHA256:ECDHE-ECDSA-AES256-GCM-SHA384:ECDHE-ECDSA-AES128-CBC-SHA256:ECDHE-ECDSA-CHACHA20-POLY1305'',
      dialogs = [], quit = False\<rparr>"
  by (simp add: swapped_controller_def running_controller_eq custom_options_def ok_world_def
        shutdownNeutrino_def run_simps)

subsection \<open>The transition table\<close>

text \<open>
  The table: \<open>startLnd\<close> and \<open>connectLnd\<close> are accepted in the state \<open>onboarding\<close> and in no
  other; \<open>startOnboarding\<close> and \<open>terminate\<close> are accepted in every state that is not
  \<open>terminated\<close>; a \<open>startLnd\<close> in the state \<open>running\<close> is rejected as an invalid transition
  and leaves the whole controller, and with it the one handle of the process, as it was,
  and so is every \<open>startLnd\<close> or \<open>connectLnd\<close> outside of \<open>onboarding\<close>.
\<close>

theorem state_machine_accepts:
  "(can c StartLnd \<longleftrightarrow> fsm c = Onboarding)
   \<and> (can c ConnectLnd \<longleftrightarrow> fsm c = Onboarding)
   \<and> (fsm c \<noteq> Terminated \<longrightarrow> can c StartOnboarding \<and> can c Terminate)
   \<and> (fsm c = Running \<longrightarrow> fire w StartLnd c = (Inl (InvalidTransition StartLnd Running), c))
   \<and> (fsm c \<noteq> Onboarding \<longrightarrow>
        fire w StartLnd c = (Inl (InvalidTransition StartLnd (fsm c)), c)
        \<and> fire w ConnectLnd c = (Inl (InvalidTransition ConnectLnd (fsm c)), c))"
  by (cases "fsm c"; simp add: can_def seek_def transitions_def fire_def)

theorem state_machine_accepts_witness:
  "fsm running_controller = Running \<and> \<not> can running_controller StartLnd
   \<and> \<not> can running_controller ConnectLnd
   \<and> can running_controller StartOnboarding \<and> can running_controller Terminate
   \<and> fire ok_world StartLnd running_controller =
       (Inl (InvalidTransition StartLnd Running), running_controller)"
  using state_machine_accepts [of running_controller ok_world]
  by (simp add: running_controller_eq)

text \<open>
  Claim C3: \<open>startLnd\<close> and \<open>connectLnd\<close> are accepted only in \<open>onboarding\<close>, a second
  \<open>startLnd\<close> in \<open>running\<close> is rejected, and so at most one process of the node is live at
  a time. The table holds, as shown above; the conclusion does not hold of the code. A
  local node is running and its process has received no signal. The renderer's \<open>startLnd\<close>
  with a custom profile is refused by the state machine, but \<open>finishOnboarding\<close> has
  already replaced the profile. When onboarding is started again, \<open>shutdownNeutrino\<close>
  reads the custom profile and returns at its guard: the process still has its handle
  and has not been signalled. The next \<open>startLnd\<close> with a local profile is accepted and
  starts a second process.
\<close>

theorem second_supervisor_started:
  "neutrino running_controller = Some \<lparr>process = True, kills = []\<rparr>
   \<and> fst (finishOnboarding SETTINGS_PROPS ok_world custom_options running_controller) =
       Inl (InvalidTransition ConnectLnd Running)
   \<and> fsm swapped_controller = Onboarding
   \<and> type (lndConfig swapped_controller) = Some Custom
   \<and> neutrino swapped_controller = Some \<lparr>process = True, kills = []\<rparr>
   \<and> fst (finishOnboarding SETTINGS_PROPS ok_world local_options swapped_controller) = Inr ()
   \<and> fsm (run SETTINGS_PROPS [(ok_world, IpcMessage (StartLndMsg local_options))]
             swapped_controller) = Running
   \<and> neutrino (run SETTINGS_PROPS [(ok_world, IpcMessage (StartLndMsg local_options))]
                  swapped_controller) = Some \<lparr>process = True, kills = []\<rparr>"
  by (simp add: swapped_controller_eq running_controller_eq local_options_def
        custom_options_def ok_world_def run_simps)

subsection \<open>Connect failures in \<open>connectLnd\<close>\<close>

text \<open>
  Claim C1, as the code has it. When \<open>connectLnd\<close> is triggered in \<open>onboarding\<close>, the main
  window is available and the authenticated connect fails with an error whose code is
  \<open>LND_GRPC_HOST_ERROR\<close>, the controller sends exactly one notification, \<open>startLndError\<close>,
  whose payload has a \<open>host\<close> entry and neither \<open>cert\<close> nor \<open>macaroon\<close>; the handler then
  throws the error again, so the transition is cancelled: the trigger fails with that
  error and the state is still \<open>onboarding\<close>, not \<open>connected\<close>.
\<close>

theorem connectLnd_host_error:
  assumes "fsm c = Onboarding" and "mainWindow c"
    and "lightning_connect w = Some e" and "code e = CodeStr ''LND_GRPC_HOST_ERROR''"
  shows "\<exists>h. fire w ConnectLnd c =
           (Inl (Thrown e),
            c\<lparr>lightning := Some new_session,
              sent := sent c @ [(''startLndError'',
                                 Errors \<lparr>host = Some h, cert = None, macaroon = None\<rparr>)]\<rparr>)"
  using assms
  by (intro exI [of _ "''Unable to connect to host: '' @ js_or (details e) (message e)"])
     (simp add: fire_def seek_def transitions_def onBeforeConnectLnd_def
        startLightningWallet_def sendMessage_def Let_def)

text \<open>
  At the scenario of the specification: the profile \<open>{type: custom, host: "h", cert: "c",
  macaroon: "m"}\<close> and the error message \<open>"x"\<close>. The \<open>host\<close> entry that was set to the
  message is overwritten by the branch for the other error codes, and the state stays
  \<open>onboarding\<close>.
\<close>

theorem connectLnd_host_error_witness:
  "fire (ok_world\<lparr>lightning_connect := Some host_error\<rparr>) ConnectLnd onboarding_controller =
     (Inl (Thrown host_error),
      onboarding_controller
        \<lparr>lightning := Some new_session,
         sent := sent onboarding_controller
                 @ [(''startLndError'',
                     Errors \<lparr>host = Some ''Unable to connect to host: x'', cert = None,
                             macaroon = None\<rparr>)]\<rparr>)"
  using connectLnd_host_error [of onboarding_controller "ok_world\<lparr>lightning_connect := Some host_error\<rparr>" host_error]
  by (simp add: onboarding_controller_eq ok_world_def host_error_def run_simps)

theorem connectLnd_host_error_counterexample:
  "(let c' = run SETTINGS_PROPS
               [(ok_world\<lparr>lightning_connect := Some host_error\<rparr>,
                 IpcMessage (StartLndMsg custom_options))] onboarding_controller
    in sent c' = sent onboarding_controller
                 @ [(''startLndError'',
                     Errors \<lparr>host = Some ''Unable to connect to host: x'', cert = None,
                             macaroon = None\<rparr>)]
       \<and> sent c' \<noteq> sent onboarding_controller
                 @ [(''startLndError'',
                     Errors \<lparr>host = Some ''x'', cert = None, macaroon = None\<rparr>)]
       \<and> fsm c' = Onboarding \<and> fsm c' \<noteq> Connected)"
  by (simp add: onboarding_controller_eq ok_world_def host_error_def custom_options_def run_simps)

text \<open>
  Claim C2, as the code has it. When \<open>connectLnd\<close> is triggered in \<open>onboarding\<close>, the main
  window is available and the authenticated connect fails with code 12, no \<open>startLndError\<close>
  is sent and the Unlocker session is created. If its connect succeeds, the Unlocker
  session is open, exactly one \<open>walletUnlockerGrpcActive\<close> is sent and the state becomes
  \<open>connected\<close>; if its connect fails, nothing is sent, the session stays closed and the
  transition is cancelled with that error. \<open>startLnd\<close> makes no authenticated connect: it
  leaves the authenticated session as it is.
\<close>

theorem connectLnd_unimplemented:
  assumes "fsm c = Onboarding" and "mainWindow c"
    and "lightning_connect w = Some e" and "code e = CodeNum 12"
  shows "(unlocker_connect w = None \<longrightarrow>
            fire w ConnectLnd c =
              (Inr (),
               c\<lparr>fsm := Connected, lightning := Some new_session,
                 walletUnlocker := Some \<lparr>is_open = True, subscribed = False\<rparr>,
                 ipc_listeners := ipc_listeners c @ [''walletUnlocker''],
                 sent := sent c @ [(''walletUnlockerGrpcActive'', Undefined)]\<rparr>))
         \<and> (\<forall>e'. unlocker_connect w = Some e' \<longrightarrow>
              fire w ConnectLnd c =
                (Inl (Thrown e'),
                 c\<lparr>lightning := Some new_session, walletUnlocker := Some new_session\<rparr>))
         \<and> lightning (snd (fire w StartLnd c)) = lightning c"
proof (intro conjI allI impI)
  assume "unlocker_connect w = None"
  with assms show "fire w ConnectLnd c =
              (Inr (),
               c\<lparr>fsm := Connected, lightning := Some new_session,
                 walletUnlocker := Some \<lparr>is_open = True, subscribed = False\<rparr>,
                 ipc_listeners := ipc_listeners c @ [''walletUnlocker''],
                 sent := sent c @ [(''walletUnlockerGrpcActive'', Undefined)]\<rparr>)"
    by (simp add: fire_def seek_def transitions_def onBeforeConnectLnd_def
          startLightningWallet_def startWalletUnlocker_def sendMessage_def new_session_def Let_def)
next
  fix e' assume "unlocker_connect w = Some e'"
  with assms show "fire w ConnectLnd c =
                (Inl (Thrown e'),
                 c\<lparr>lightning := Some new_session, walletUnlocker := Some new_session\<rparr>)"
    by (simp add: fire_def seek_def transitions_def onBeforeConnectLnd_def
          startLightningWallet_def startWalletUnlocker_def Let_def)
next
  show "lightning (snd (fire w StartLnd c)) = lightning c"
    using assms(1)
    by (simp add: fire_def seek_def transitions_def onBeforeStartLnd_def startNeutrino_def
          split: option.splits)
qed

theorem connectLnd_unimplemented_witness:
  "fire (ok_world\<lparr>lightning_connect := Some unimplemented_error\<rparr>) ConnectLnd
        onboarding_controller =
     (Inr (),
      onboarding_controller
        \<lparr>fsm := Connected, lightning := Some new_session,
         walletUnlocker := Some \<lparr>is_open = True, subscribed = False\<rparr>,
         ipc_listeners := ipc_listeners onboarding_controller @ [''walletUnlocker''],
         sent := sent onboarding_controller @ [(''walletUnlockerGrpcActive'', Undefined)]\<rparr>)
   \<and> fire (ok_world\<lparr>lightning_connect := Some unimplemented_error,
                      unlocker_connect := Some unavailable_error\<rparr>) ConnectLnd
          onboarding_controller =
       (Inl (Thrown unavailable_error),
        onboarding_controller\<lparr>lightning := Some new_session,
                              walletUnlocker := Some new_session\<rparr>)"
  using connectLnd_unimplemented [of onboarding_controller
      "ok_world\<lparr>lightning_connect := Some unimplemented_error\<rparr>" unimplemented_error]
    connectLnd_unimplemented [of onboarding_controller
      "ok_world\<lparr>lightning_connect := Some unimplemented_error,
                 unlocker_connect := Some unavailable_error\<rparr>" unimplemented_error]
  by (simp add: onboarding_controller_eq ok_world_def unimplemented_error_def)

text \<open>
  The authenticated connect fails with code 12 and the Unlocker connect fails as well:
  no notification is sent and no Unlocker session is open.
\<close>

theorem connectLnd_unimplemented_counterexample:
  "(let c' = run SETTINGS_PROPS
               [(ok_world\<lparr>lightning_connect := Some unimplemented_error,
                           unlocker_connect := Some unavailable_error\<rparr>,
                 IpcMessage (StartLndMsg custom_options))] onboarding_controller
    in sent c' = sent onboarding_controller
       \<and> (''walletUnlockerGrpcActive'', Undefined) \<notin> set (sent c')
       \<and> walletUnlocker c' = Some \<lparr>is_open = False, subscribed = False\<rparr>
       \<and> fsm c' = Onboarding)"
  by (simp add: onboarding_controller_eq ok_world_def unimplemented_error_def
        unavailable_error_def custom_options_def run_simps)

subsection \<open>The two sessions\<close>

text \<open>
  Claim C5, as the code has it. Opening one session leaves the other as it is:
  \<open>startLightningWallet\<close> does not touch the Unlocker session and \<open>startWalletUnlocker\<close>
  does not touch the authenticated session. Neither tears the other down, so both can be
  open at once.
\<close>

theorem sessions_opened_independently:
  "walletUnlocker (snd (startLightningWallet w c)) = walletUnlocker c
   \<and> lightning (snd (startWalletUnlocker w c)) = lightning c"
  by simp

text \<open>
  A local node is running, the process reports that the Unlocker interface is ready, and
  the renderer then asks for the authenticated session: both sessions are open.
\<close>

theorem sessions_both_open_counterexample:
  "(let c' = run SETTINGS_PROPS
               [(ok_world, NeutrinoEvent WalletUnlockerGrpcActive),
                (ok_world, IpcMessage StartLightningWalletMsg)] running_controller
    in walletUnlocker c' = Some \<lparr>is_open = True, subscribed = False\<rparr>
       \<and> lightning c' = Some \<lparr>is_open = True, subscribed = True\<rparr>)"
  by (simp add: running_controller_eq ok_world_def run_simps)

subsection \<open>Starting a local node\<close>

text \<open>
  Claim C8. A local profile is taken through \<open>startLnd\<close> from \<open>onboarding\<close> with the main
  window available, the process starts, emits \<open>chain-sync-waiting\<close>, \<open>chain-sync-started\<close>
  and \<open>wallet-unlocker-grpc-active\<close>, and the Unlocker connects: the notifications sent
  are \<open>lndSyncStatus("waiting")\<close>, \<open>lndSyncStatus("in-progress")\<close>, \<open>walletUnlockerGrpcActive\<close>,
  in this order and no others, and the state is \<open>running\<close>.
\<close>

theorem startLnd_sync_scenario:
  assumes "fsm c = Onboarding" and "mainWindow c" and "otype options = Local"
    and "LndConfig_new props Local ''bitcoin'' ''testnet'' ''wallet-1''
           (pick (options_obj options) (props Local)) = Inr cfg"
    and "neutrino_start w1 = None" and "unlocker_connect w4 = None"
  shows "let c' = run props [(w2, NeutrinoEvent ChainSyncWaiting),
                             (w3, NeutrinoEvent ChainSyncStarted),
                             (w4, NeutrinoEvent WalletUnlockerGrpcActive)]
                    (snd (finishOnboarding props w1 options c))
         in sent c' = sent c @ [(''lndSyncStatus'', Str ''waiting''),
                                (''lndSyncStatus'', Str ''in-progress''),
                                (''walletUnlockerGrpcActive'', Undefined)]
            \<and> fsm c' = Running"
  using assms
  by (simp add: finishOnboarding_def fire_def seek_def transitions_def onBeforeStartLnd_def
        startNeutrino_def run_def startWalletUnlocker_def sendMessage_def Let_def)

theorem startLnd_sync_scenario_witness:
  "(let c' = run SETTINGS_PROPS [(ok_world, NeutrinoEvent ChainSyncWaiting),
                             (ok_world, NeutrinoEvent ChainSyncStarted),
                             (ok_world, NeutrinoEvent WalletUnlockerGrpcActive)]
                    running_controller
         in sent c' = [(''startOnboarding'', Config no_config),
                       (''lndSyncStatus'', Str ''waiting''),
                       (''lndSyncStatus'', Str ''in-progress''),
                       (''walletUnlockerGrpcActive'', Undefined)]
            \<and> fsm c' = Running)"
proof -
  have rc: "running_controller =
      snd (finishOnboarding SETTINGS_PROPS ok_world local_options onboarding_controller)"
    by (simp add: running_controller_def run_def ipc_emit_def onboarding_controller_eq
          split: prod.splits)
  have cfg: "LndConfig_new SETTINGS_PROPS Local ''bitcoin'' ''testnet'' ''wallet-1''
           (pick (options_obj local_options) (SETTINGS_PROPS Local)) = Inr (lndConfig running_controller)"
    by (simp add: running_controller_eq local_options_def LndConfig_new_def pick_def first_occurrences_def options_obj_def)
  show ?thesis
    using startLnd_sync_scenario [of onboarding_controller local_options SETTINGS_PROPS
        "lndConfig running_controller" ok_world ok_world ok_world ok_world, OF _ _ _ cfg]
    unfolding rc [symmetric]
    by (simp add: onboarding_controller_eq local_options_def ok_world_def)
qed

subsection \<open>Shutdown of the process\<close>

lemma shutdown_events_outcome:
  fixes kill_at exit :: "nat option"
  defines "p \<equiv> foldl (\<lambda>p e. shutdown_step e p)
                  \<lparr>shutdownTimeout = Armed, exitHandler = True, resolved = None, signals = []\<rparr>
                  (sort_key fst
                    ([(10000, Timeout)]
                     @ (case kill_at of None \<Rightarrow> [] | Some d \<Rightarrow> [(d, KillCalled)])
                     @ (case exit of None \<Rightarrow> [] | Some t \<Rightarrow> [(t, ProcessExit)])))"
  shows "(\<exists>t. resolved p = Some t \<and> t \<le> 10000)
     \<and> (\<forall>t. exit = Some t \<and> t < 10000 \<longrightarrow>
            resolved p = Some t \<and> shutdownTimeout p = Cleared \<and> SIGTERM \<notin> set (signals p))
     \<and> (exit = None \<or> (\<exists>t. exit = Some t \<and> 10000 < t) \<longrightarrow>
            resolved p = Some 10000 \<and> shutdownTimeout p = Fired \<and> SIGTERM \<in> set (signals p))"
  unfolding p_def
  by (cases kill_at; cases exit) (auto simp: resolve_def)

text \<open>
  Claim C4. The promise of \<open>shutdownNeutrino\<close> always resolves, at 10 seconds at the
  latest, and has no way to reject. For a local profile with a running process: if the
  process emits \<open>exit\<close> at a time \<open>t\<close> before the 10 seconds, the promise resolves at \<open>t\<close>, the timer
  is cleared and no \<open>SIGTERM\<close> is sent; if it emits no \<open>exit\<close>, or only after the 10
  seconds, the timer fires, \<open>SIGTERM\<close> is sent and the promise resolves at 10 seconds.
  Times are the milliseconds since the call at which the callbacks run.
\<close>

theorem shutdownNeutrino_resolves:
  "let p = fst (shutdownNeutrino w c) in
     (\<exists>t. resolved p = Some t \<and> t \<le> 10000)
     \<and> (type (lndConfig c) = Some Local \<and> neutrino c = Some n \<and> process n \<longrightarrow>
          (\<forall>t. exit_at w = Some t \<and> t < 10000 \<longrightarrow>
             resolved p = Some t \<and> shutdownTimeout p = Cleared \<and> SIGTERM \<notin> set (signals p))
          \<and> (exit_at w = None \<or> (\<exists>t. exit_at w = Some t \<and> 10000 < t) \<longrightarrow>
               resolved p = Some 10000 \<and> shutdownTimeout p = Fired
               \<and> SIGTERM \<in> set (signals p))
          \<and> neutrino (snd (shutdownNeutrino w c)) = Some (n\<lparr>kills := kills n @ signals p\<rparr>))"
proof (cases "type (lndConfig c) \<noteq> Some Local \<or> neutrino c = None
                \<or> \<not> process (the (neutrino c))")
  case True
  then show ?thesis by (auto simp: shutdownNeutrino_def)
next
  case False
  then show ?thesis
    using shutdown_events_outcome
      [of "if (case lightning c of None \<Rightarrow> False | Some l \<Rightarrow> session_can l ''terminate'')
           then disconnect_settles w else Some 0" "exit_at w"]
    by (simp add: shutdownNeutrino_def Let_def)
qed

theorem shutdownNeutrino_resolves_witness:
  "(let p = fst (shutdownNeutrino (ok_world\<lparr>exit_at := Some 300\<rparr>) running_controller)
    in resolved p = Some 300 \<and> shutdownTimeout p = Cleared \<and> signals p = [SIGINT])
   \<and> (let p = fst (shutdownNeutrino ok_world running_controller)
      in resolved p = Some 10000 \<and> shutdownTimeout p = Fired \<and> signals p = [SIGINT, SIGTERM])"
  using shutdownNeutrino_resolves [where c = running_controller
      and n = "\<lparr>process = True, kills = []\<rparr>" and w = "ok_world\<lparr>exit_at := Some 300\<rparr>"]
    shutdownNeutrino_resolves [where c = running_controller
      and n = "\<lparr>process = True, kills = []\<rparr>" and w = ok_world]
  by (simp add: running_controller_eq ok_world_def shutdownNeutrino_def resolve_def Let_def)

text \<open>
  Claim C10. If the type of the active profile is not \<open>local\<close>, or there is no handle, or
  the handle has no process, \<open>shutdownNeutrino\<close> resolves at once: no timer is started, no
  signal is sent and the controller, with the handle of the process, is unchanged.
\<close>

theorem shutdownNeutrino_remote_or_no_process:
  "type (lndConfig c) \<noteq> Some Local \<or> neutrino c = None
     \<or> (\<exists>n. neutrino c = Some n \<and> \<not> process n) \<Longrightarrow>
   shutdownNeutrino w c =
     (\<lparr>shutdownTimeout = Unset, exitHandler = False, resolved = Some 0, signals = []\<rparr>, c)"
  by (auto simp: shutdownNeutrino_def)

theorem shutdownNeutrino_remote_or_no_process_witness:
  "type (lndConfig connected_controller) \<noteq> Some Local
   \<and> shutdownNeutrino ok_world connected_controller =
       (\<lparr>shutdownTimeout = Unset, exitHandler = False, resolved = Some 0, signals = []\<rparr>,
        connected_controller)
   \<and> neutrino onboarding_controller = None
   \<and> shutdownNeutrino ok_world onboarding_controller =
       (\<lparr>shutdownTimeout = Unset, exitHandler = False, resolved = Some 0, signals = []\<rparr>,
        onboarding_controller)"
  using shutdownNeutrino_remote_or_no_process [of connected_controller ok_world]
    shutdownNeutrino_remote_or_no_process [of onboarding_controller ok_world]
  by (simp add: connected_controller_eq onboarding_controller_eq)

subsection \<open>Finishing onboarding\<close>

lemma set_first_occurrences [simp]: "set (first_occurrences paths) = set paths"
  by (simp add: first_occurrences_def)

lemma keys_pick:
  "map fst (pick object paths) =
     filter (\<lambda>k. k \<in> fst ` set object) (first_occurrences paths)"
proof -
  have "map fst (concat (map (\<lambda>k. case map_of object k of None \<Rightarrow> [] | Some v \<Rightarrow> [(k, v)]) ks))
          = filter (\<lambda>k. k \<in> fst ` set object) ks" for ks
    by (induction ks)
       (auto simp: domIff dom_map_of_conv_image_fst [symmetric] split: option.splits)
  then show ?thesis by (simp add: pick_def)
qed

lemma fire_not_validation: "fst (fire w t c) \<noteq> Inl (ConfigValidationError missing extra)"
  by (cases rule: fire_cases [of c t w]) simp_all

lemma LndConfig_new_iff:
  "(\<exists>cfg. LndConfig_new props t cur net wal s = Inr cfg) \<longleftrightarrow> set (map fst s) = set (props t)"
  by (auto simp: LndConfig_new_def Let_def filter_empty_conv)

lemma pick_missing:
  "filter (\<lambda>k. k \<notin> set (map fst (pick object paths))) paths = filter (\<lambda>k. k \<notin> fst ` set object) paths"
  by (rule filter_cong) (auto simp: keys_pick)

lemma pick_extra: "filter (\<lambda>k. k \<notin> set paths) (map fst (pick object paths)) = []"
  by (auto simp: keys_pick filter_empty_conv)

lemma construct_picked:
  "LndConfig_new props (otype options) cur net wal (pick (options_obj options) (props (otype options))) =
     (if set (props (otype options)) \<subseteq> fst ` set (options_obj options)
      then Inr \<lparr>type = Some (otype options), currency = cur, network = net, wallet = wal,
                settings = pick (options_obj options) (props (otype options))\<rparr>
      else Inl (ConfigValidationError
                  (filter (\<lambda>k. k \<notin> fst ` set (options_obj options)) (props (otype options))) []))"
  unfolding LndConfig_new_def Let_def pick_missing pick_extra
  by (auto simp: filter_empty_conv)

lemma LndConfig_new_keys:
  "LndConfig_new props t cur net wal s =
     (if set (map fst s) = set (props t)
      then Inr \<lparr>type = Some t, currency = cur, network = net, wallet = wal, settings = s\<rparr>
      else Inl (ConfigValidationError (filter (\<lambda>k. k \<notin> set (map fst s)) (props t))
                                      (filter (\<lambda>k. k \<notin> set (props t)) (map fst s))))"
  by (auto simp: LndConfig_new_def Let_def filter_empty_conv)

lemma finishOnboarding_result:
  "finishOnboarding props w options c =
     (if set (props (otype options)) \<subseteq> fst ` set (options_obj options)
      then (if otype options = Local then fire w StartLnd else fire w ConnectLnd)
             (c\<lparr>lndConfig := \<lparr>type = Some (otype options), currency = ''bitcoin'',
                                network = ''testnet'', wallet = ''wallet-1'',
                                settings = pick (options_obj options) (props (otype options))\<rparr>,
                 saved_config := Some \<lparr>type = Some (otype options), currency = ''bitcoin'',
                                network = ''testnet'', wallet = ''wallet-1'',
                                settings = pick (options_obj options) (props (otype options))\<rparr>,
                 activeConnection := Some \<lparr>type = Some (otype options), currency = ''bitcoin'',
                                network = ''testnet'', wallet = ''wallet-1''\<rparr>,
                 GRPC_SSL_CIPHER_SUITES :=
                   Some (js_or (GRPC_SSL_CIPHER_SUITES c) (grpcSslCipherSuites (otype options)))\<rparr>)
      else (Inl (ConfigValidationError
                  (filter (\<lambda>k. k \<notin> fst ` set (options_obj options)) (props (otype options))) []),
            c))"
  by (simp add: finishOnboarding_def construct_picked Let_def)

lemma picked_keys_match:
  "set (map fst (pick object paths)) = set paths \<longleftrightarrow> set paths \<subseteq> fst ` set object"
  by (auto simp: keys_pick)

text \<open>
  Claim C6. For every connection type, the constructor of the profile succeeds exactly
  when the keys of the settings it is given are the required keys of the type; otherwise
  it fails with a \<open>ConfigValidationError\<close> that names the required keys that are missing
  and the given keys that are not required. \<open>finishOnboarding\<close> fails with such an error
  exactly when the settings it hands to the constructor do not have exactly the required
  keys.
\<close>

theorem LndConfig_new_exact_keys:
  "LndConfig_new props t cur net wal s =
     (if set (map fst s) = set (props t)
      then Inr \<lparr>type = Some t, currency = cur, network = net, wallet = wal, settings = s\<rparr>
      else Inl (ConfigValidationError (filter (\<lambda>k. k \<notin> set (map fst s)) (props t))
                                      (filter (\<lambda>k. k \<notin> set (props t)) (map fst s))))
   \<and> ((\<exists>missing extra. fst (finishOnboarding props w options c)
                          = Inl (ConfigValidationError missing extra))
        \<longleftrightarrow> set (map fst (pick (options_obj options) (props (otype options))))
              \<noteq> set (props (otype options)))"
proof -
  have "(\<exists>missing extra. fst (finishOnboarding props w options c)
                          = Inl (ConfigValidationError missing extra))
        \<longleftrightarrow> \<not> set (props (otype options)) \<subseteq> fst ` set (options_obj options)"
    by (simp add: finishOnboarding_result fire_not_validation)
  then show ?thesis
    using LndConfig_new_keys [of props t cur net wal s]
      picked_keys_match [of "options_obj options" "props (otype options)"]
    by simp
qed

theorem LndConfig_new_exact_keys_witness:
  "LndConfig_new SETTINGS_PROPS Local ''bitcoin'' ''testnet'' ''wallet-1'' (rest local_options) =
     Inr \<lparr>type = Some Local, currency = ''bitcoin'', network = ''testnet'', wallet = ''wallet-1'',
          settings = rest local_options\<rparr>
   \<and> LndConfig_new SETTINGS_PROPS Local ''bitcoin'' ''testnet'' ''wallet-1''
        (rest extra_key_options) = Inl (ConfigValidationError [] [''host''])
   \<and> LndConfig_new SETTINGS_PROPS Local ''bitcoin'' ''testnet'' ''wallet-1''
        (rest missing_key_options) = Inl (ConfigValidationError [''autopilot''] [])"
proof -
  have ok: "set (map fst (rest local_options)) = set (SETTINGS_PROPS Local)"
    by (simp add: local_options_def)
  have "''host'' \<in> set (map fst (rest extra_key_options))"
    and "''host'' \<notin> set (SETTINGS_PROPS Local)"
    by (simp_all add: extra_key_options_def)
  then have extra: "set (map fst (rest extra_key_options)) \<noteq> set (SETTINGS_PROPS Local)"
    by blast
  have "''autopilot'' \<notin> set (map fst (rest missing_key_options))"
    and "''autopilot'' \<in> set (SETTINGS_PROPS Local)"
    by (simp_all add: missing_key_options_def)
  then have missing: "set (map fst (rest missing_key_options)) \<noteq> set (SETTINGS_PROPS Local)"
    by blast
  note a = LndConfig_new_exact_keys [of SETTINGS_PROPS Local "''bitcoin''" "''testnet''"
      "''wallet-1''" "rest local_options", THEN conjunct1, unfolded if_P [OF ok]]
  note b = LndConfig_new_exact_keys [of SETTINGS_PROPS Local "''bitcoin''" "''testnet''"
      "''wallet-1''" "rest extra_key_options", THEN conjunct1, unfolded if_not_P [OF extra]]
  note c = LndConfig_new_exact_keys [of SETTINGS_PROPS Local "''bitcoin''" "''testnet''"
      "''wallet-1''" "rest missing_key_options", THEN conjunct1, unfolded if_not_P [OF missing]]
  have b': "LndConfig_new SETTINGS_PROPS Local ''bitcoin'' ''testnet'' ''wallet-1''
        (rest extra_key_options) = Inl (ConfigValidationError [] [''host''])"
    unfolding b by (simp add: extra_key_options_def)
  have c': "LndConfig_new SETTINGS_PROPS Local ''bitcoin'' ''testnet'' ''wallet-1''
        (rest missing_key_options) = Inl (ConfigValidationError [''autopilot''] [])"
    unfolding c by (simp add: missing_key_options_def)
  show ?thesis using a b' c' by (intro conjI)
qed

text \<open>
  The settings that \<open>finishOnboarding\<close> hands to the constructor are the options
  restricted by \<open>pick\<close>: a key of the options that is not required, here \<open>host\<close>, does
  not reach the constructor.
\<close>

lemma finishOnboarding_extra_key_dropped:
  "''host'' \<in> fst ` set (rest extra_key_options) \<and> ''host'' \<notin> set (SETTINGS_PROPS Local)
   \<and> fst (finishOnboarding SETTINGS_PROPS ok_world extra_key_options onboarding_controller) = Inr ()
   \<and> lndConfig (snd (finishOnboarding SETTINGS_PROPS ok_world extra_key_options
                        onboarding_controller)) =
       \<lparr>type = Some Local, currency = ''bitcoin'', network = ''testnet'', wallet = ''wallet-1'',
        settings = [(''alias'', VStr ''node1''), (''autopilot'', VBool True)]\<rparr>"
  by (simp add: extra_key_options_def onboarding_controller_eq ok_world_def run_simps)




subsection \<open>The cipher suites in the environment\<close>

lemma grpcSslCipherSuites_values:
  "grpcSslCipherSuites Btcpayserver = ''ECDHE-RSA-AES256-GCM-SHA384:ECDHE-RSA-AES128-GCM-SHA256''"
  "grpcSslCipherSuites Custom = ''ECDHE-ECDSA-AES128-GCM-SHA256:ECDHE-ECDSA-AES256-GCM-SHA384:ECDHE-ECDSA-AES128-CBC-SHA256:ECDHE-ECDSA-CHACHA20-POLY1305''"
  "grpcSslCipherSuites Local = ''ECDHE-ECDSA-AES128-GCM-SHA256:ECDHE-ECDSA-AES256-GCM-SHA384:ECDHE-ECDSA-AES128-CBC-SHA256:ECDHE-ECDSA-CHACHA20-POLY1305''"
  by (simp_all add: grpcSslCipherSuites_def)

lemma grpcSslCipherSuites_nonempty: "grpcSslCipherSuites t \<noteq> []"
  by (cases t) (simp_all add: grpcSslCipherSuites_def)

lemma finishOnboarding_env:
  "GRPC_SSL_CIPHER_SUITES (snd (finishOnboarding props w options c)) =
     (case LndConfig_new props (otype options) ''bitcoin'' ''testnet'' ''wallet-1''
             (pick (options_obj options) (props (otype options))) of
        Inl e \<Rightarrow> GRPC_SSL_CIPHER_SUITES c
      | Inr cfg \<Rightarrow> Some (js_or (GRPC_SSL_CIPHER_SUITES c) (grpcSslCipherSuites (otype options))))"
  by (simp add: finishOnboarding_def Let_def split: sum.splits)

lemma on_neutrino_env:
  "GRPC_SSL_CIPHER_SUITES (on_neutrino w ev c) = GRPC_SSL_CIPHER_SUITES c"
  by (cases ev) simp_all

lemma ipc_listener_env_kept:
  "GRPC_SSL_CIPHER_SUITES c = Some v \<Longrightarrow> v \<noteq> [] \<Longrightarrow>
   GRPC_SSL_CIPHER_SUITES (snd (ipc_listener props w m c)) = Some v"
proof (cases m)
  case (StartLndMsg options)
  assume "GRPC_SSL_CIPHER_SUITES c = Some v" "v \<noteq> []"
  then show ?thesis using StartLndMsg
    by (simp add: finishOnboarding_env js_or_def split: sum.splits)
next
  case StartLightningWalletMsg
  assume "GRPC_SSL_CIPHER_SUITES c = Some v" "v \<noteq> []"
  moreover obtain r c1 where s: "startLightningWallet w c = (r, c1)"
    by (cases "startLightningWallet w c")
  moreover have "GRPC_SSL_CIPHER_SUITES c1 = GRPC_SSL_CIPHER_SUITES c"
    using startLightningWallet_frame(8) [of w c] s by simp
  ultimately show ?thesis using StartLightningWalletMsg by (cases r) simp_all
qed simp_all

lemma call_listeners_env_kept:
  "GRPC_SSL_CIPHER_SUITES c = Some v \<Longrightarrow> v \<noteq> [] \<Longrightarrow>
   GRPC_SSL_CIPHER_SUITES (call_listeners props w m chs c) = Some v"
proof (induction chs arbitrary: c)
  case Nil
  then show ?case by simp
next
  case (Cons ch chs)
  obtain r c1 where l: "ipc_listener props w m c = (r, c1)"
    by (cases "ipc_listener props w m c")
  then have "GRPC_SSL_CIPHER_SUITES c1 = Some v"
    using ipc_listener_env_kept [OF Cons.prems, of props w m] by simp
  then show ?case using Cons.IH [of c1] Cons.prems(2) l by simp
qed

lemma step_env_kept:
  "GRPC_SSL_CIPHER_SUITES c = Some v \<Longrightarrow> v \<noteq> [] \<Longrightarrow>
   GRPC_SSL_CIPHER_SUITES (step props i c) = Some v"
proof (cases i)
  case (Pair w inp)
  assume "GRPC_SSL_CIPHER_SUITES c = Some v" "v \<noteq> []"
  then show ?thesis using Pair
    by (cases inp) (simp_all add: ipc_emit_def call_listeners_env_kept on_neutrino_env)
qed

lemma run_env_kept:
  "GRPC_SSL_CIPHER_SUITES c = Some v \<Longrightarrow> v \<noteq> [] \<Longrightarrow>
   GRPC_SSL_CIPHER_SUITES (run props inputs c) = Some v"
  unfolding run_def
  by (induction inputs arbitrary: c) (simp_all add: step_env_kept)

text \<open>
  Claim C7, as the code has it. When \<open>finishOnboarding\<close> gets past the constructor, the
  environment variable afterwards holds its former value if that was a non-empty string,
  and otherwise (unset, or set to the empty string) the list for the connection type: the
  two RSA suites for \<open>btcpayserver\<close>, the four ECDSA suites for every other type, joined by
  colons. A non-empty value, supplied from outside or written before, is kept by every
  later run of the controller, so at most one list is ever written.
\<close>

theorem cipher_suites_set_once:
  "(LndConfig_new props (otype options) ''bitcoin'' ''testnet'' ''wallet-1''
        (pick (options_obj options) (props (otype options))) = Inr cfg \<longrightarrow>
      GRPC_SSL_CIPHER_SUITES (snd (finishOnboarding props w options c)) =
        Some (case GRPC_SSL_CIPHER_SUITES c of
                None \<Rightarrow> grpcSslCipherSuites (otype options)
              | Some v \<Rightarrow> if v = [] then grpcSslCipherSuites (otype options) else v))
   \<and> grpcSslCipherSuites (otype options) =
       (if otype options = Btcpayserver
        then ''ECDHE-RSA-AES256-GCM-SHA384:ECDHE-RSA-AES128-GCM-SHA256''
        else ''ECDHE-ECDSA-AES128-GCM-SHA256:ECDHE-ECDSA-AES256-GCM-SHA384:ECDHE-ECDSA-AES128-CBC-SHA256:ECDHE-ECDSA-CHACHA20-POLY1305'')
   \<and> (GRPC_SSL_CIPHER_SUITES c = Some v \<and> v \<noteq> [] \<longrightarrow>
        GRPC_SSL_CIPHER_SUITES (run props inputs c) = Some v)"
proof (intro conjI impI)
  assume "LndConfig_new props (otype options) ''bitcoin'' ''testnet'' ''wallet-1''
        (pick (options_obj options) (props (otype options))) = Inr cfg"
  then show "GRPC_SSL_CIPHER_SUITES (snd (finishOnboarding props w options c)) =
        Some (case GRPC_SSL_CIPHER_SUITES c of
                None \<Rightarrow> grpcSslCipherSuites (otype options)
              | Some v \<Rightarrow> if v = [] then grpcSslCipherSuites (otype options) else v)"
    by (simp add: finishOnboarding_env js_or_def)
next
  show "grpcSslCipherSuites (otype options) =
       (if otype options = Btcpayserver
        then ''ECDHE-RSA-AES256-GCM-SHA384:ECDHE-RSA-AES128-GCM-SHA256''
        else ''ECDHE-ECDSA-AES128-GCM-SHA256:ECDHE-ECDSA-AES256-GCM-SHA384:ECDHE-ECDSA-AES128-CBC-SHA256:ECDHE-ECDSA-CHACHA20-POLY1305'')"
    by (cases "otype options") (simp_all add: grpcSslCipherSuites_values)
next
  assume "GRPC_SSL_CIPHER_SUITES c = Some v \<and> v \<noteq> []"
  then show "GRPC_SSL_CIPHER_SUITES (run props inputs c) = Some v"
    by (simp add: run_env_kept)
qed

theorem cipher_suites_set_once_witness:
  "LndConfig_new SETTINGS_PROPS (otype custom_options) ''bitcoin'' ''testnet'' ''wallet-1''
        (pick (options_obj custom_options) (SETTINGS_PROPS (otype custom_options)))
     = Inr (lndConfig connected_controller)
   \<and> GRPC_SSL_CIPHER_SUITES connected_controller =
       Some ''ECDHE-ECDSA-AES128-GCM-SHA256:ECDHE-ECDSA-AES256-GCM-SHA384:ECDHE-ECDSA-AES128-CBC-SHA256:ECDHE-ECDSA-CHACHA20-POLY1305''
   \<and> GRPC_SSL_CIPHER_SUITES
        (run SETTINGS_PROPS [(ok_world, Trigger StartOnboarding),
                             (ok_world, IpcMessage (StartLndMsg \<lparr>otype = Btcpayserver, rest = [(''host'', VStr ''h'')]\<rparr>))]
           connected_controller) =
       Some ''ECDHE-ECDSA-AES128-GCM-SHA256:ECDHE-ECDSA-AES256-GCM-SHA384:ECDHE-ECDSA-AES128-CBC-SHA256:ECDHE-ECDSA-CHACHA20-POLY1305''"
proof -
  have cfg: "LndConfig_new SETTINGS_PROPS (otype custom_options) ''bitcoin'' ''testnet'' ''wallet-1''
        (pick (options_obj custom_options) (SETTINGS_PROPS (otype custom_options)))
     = Inr \<lparr>type = Some Custom, currency = ''bitcoin'', network = ''testnet'', wallet = ''wallet-1'',
            settings = [(''host'', VStr ''h''), (''cert'', VStr ''c''), (''macaroon'', VStr ''m'')]\<rparr>"
    by (simp add: custom_options_def LndConfig_new_def pick_def first_occurrences_def options_obj_def)
  have cc: "connected_controller = snd (finishOnboarding SETTINGS_PROPS ok_world custom_options onboarding_controller)"
    by (simp add: connected_controller_def run_def ipc_emit_def onboarding_controller_eq
          split: prod.splits)
  have lc: "lndConfig connected_controller = \<lparr>type = Some Custom, currency = ''bitcoin'', network = ''testnet'', wallet = ''wallet-1'',
            settings = [(''host'', VStr ''h''), (''cert'', VStr ''c''), (''macaroon'', VStr ''m'')]\<rparr>"
    unfolding cc by (simp add: finishOnboarding_def cfg Let_def)
  show ?thesis
    using cfg lc
      cipher_suites_set_once [where props = SETTINGS_PROPS and options = custom_options
        and cfg = "lndConfig connected_controller" and w = ok_world and c = onboarding_controller
        and v = "''ECDHE-ECDSA-AES128-GCM-SHA256:ECDHE-ECDSA-AES256-GCM-SHA384:ECDHE-ECDSA-AES128-CBC-SHA256:ECDHE-ECDSA-CHACHA20-POLY1305''"
        and inputs = "[]"]
      cipher_suites_set_once [where props = SETTINGS_PROPS and options = custom_options
        and cfg = "lndConfig connected_controller" and w = ok_world and c = connected_controller
        and v = "''ECDHE-ECDSA-AES128-GCM-SHA256:ECDHE-ECDSA-AES256-GCM-SHA384:ECDHE-ECDSA-AES128-CBC-SHA256:ECDHE-ECDSA-CHACHA20-POLY1305''"
        and inputs = "[(ok_world, Trigger StartOnboarding),
                             (ok_world, IpcMessage (StartLndMsg \<lparr>otype = Btcpayserver, rest = [(''host'', VStr ''h'')]\<rparr>))]"]
    unfolding cc [symmetric]
    by (simp add: onboarding_controller_eq custom_options_def)
qed

text \<open>
  A process started with the variable set to the empty string: the value is replaced.
\<close>

theorem cipher_suites_empty_value_counterexample:
  "GRPC_SSL_CIPHER_SUITES (new_controller no_config (Some [])) = Some []
   \<and> GRPC_SSL_CIPHER_SUITES
       (run SETTINGS_PROPS
          [(ok_world, Trigger StartOnboarding), (ok_world, IpcMessage (StartLndMsg custom_options))]
          (new_controller no_config (Some []))) =
     Some ''ECDHE-ECDSA-AES128-GCM-SHA256:ECDHE-ECDSA-AES256-GCM-SHA384:ECDHE-ECDSA-AES128-CBC-SHA256:ECDHE-ECDSA-CHACHA20-POLY1305''"
  by (simp add: new_controller_def custom_options_def ok_world_def run_simps)

end
